theory Spec2Isabelle
  imports Main "HOL-Library.Word" "HOL-Library.Sublist"
begin

unbundle bit_operations_syntax

section \<open>Account references\<close>

text \<open>
  A public key is a 32-byte array, that is 256 bits. The builder never looks inside it.
\<close>

type_synonym PublicKey = "256 word"

record AccountMeta =
  PublicKey :: PublicKey
  IsWritable :: bool
  IsSigner :: bool

text \<open>
  An \<open>AccountMetaSlice\<close> is a slice of pointers to \<open>AccountMeta\<close>; a nil pointer is
  \<open>None\<close>. The setters of the builder store freshly allocated metas only, so a meta is
  held by value.
\<close>

type_synonym AccountMetaSlice = "AccountMeta option list"

text \<open>
  Modelled from the spec: the constructor \<open>Meta\<close> and the flag setters \<open>WRITE\<close> and
  \<open>SIGNER\<close> of the account-reference package are not among the sources. The spec gives an
  account reference an address and two flags, writable and signer; a new reference has both
  flags off, and each setter turns its flag on and returns the reference.
\<close>

definition Meta :: "PublicKey \<Rightarrow> AccountMeta" where
  "Meta pubKey = \<lparr>PublicKey = pubKey, IsWritable = False, IsSigner = False\<rparr>"

definition WRITE :: "AccountMeta \<Rightarrow> AccountMeta" where
  "WRITE meta = meta\<lparr>IsWritable := True\<rparr>"

definition SIGNER :: "AccountMeta \<Rightarrow> AccountMeta" where
  "SIGNER meta = meta\<lparr>IsSigner := True\<rparr>"

text \<open>A run-time panic of Go: the only one this code can raise is an index out of range.\<close>

datatype panic = IndexOutOfRange

text \<open>Go's \<open>s[i]\<close> and \<open>s[i] = v\<close> on a slice: both panic when \<open>i\<close> is not below \<open>len(s)\<close>.\<close>

definition index :: "'a list \<Rightarrow> nat \<Rightarrow> panic + 'a" where
  "index s i = (if i < length s then Inr (s ! i) else Inl IndexOutOfRange)"

definition set_index :: "'a list \<Rightarrow> nat \<Rightarrow> 'a \<Rightarrow> panic + 'a list" where
  "set_index s i v = (if i < length s then Inr (s[i := v]) else Inl IndexOutOfRange)"

text \<open>
  Modelled from the spec: \<open>SplitFrom\<close> of the account-reference list is not among the
  sources. In the spec's words, splitting at \<open>n\<close> gives the first \<open>n\<close> references and the
  remaining ones, in order, and splitting at an \<open>n\<close> greater than the length is an
  index-out-of-bounds error.
\<close>

definition SplitFrom :: "AccountMetaSlice \<Rightarrow> nat \<Rightarrow> panic + (AccountMetaSlice \<times> AccountMetaSlice)" where
  "SplitFrom sl n =
     (if n > length sl then Inl IndexOutOfRange else Inr (take n sl, drop n sl))"

section \<open>The ThawAccount builder\<close>

text \<open>
  \<open>Accounts\<close> holds the fixed slots: [0] the account to thaw (writable), [1] the token
  mint, [2] the mint freeze authority. \<open>Signers\<close> holds the multisignature signer accounts.
\<close>

record ThawAccount =
  Accounts :: AccountMetaSlice
  Signers :: AccountMetaSlice

text \<open>Go's \<open>error\<close> values of this file: the constructor used and its arguments.\<close>

datatype error = errors_New string | fmt_Errorf string "nat list"

text \<open>
  Modelled from the spec: the constant \<open>MAX_SIGNERS\<close> is declared outside the sources. The
  spec gives the protocol maximum as 11, and so does the message of \<open>Validate\<close>.
\<close>

definition MAX_SIGNERS :: nat where
  "MAX_SIGNERS = 11"

definition SetAccounts :: "AccountMetaSlice \<Rightarrow> ThawAccount \<Rightarrow> panic + (ThawAccount \<times> error option)" where
  "SetAccounts accounts obj =
     (case SplitFrom accounts 3 of
        Inl p \<Rightarrow> Inl p
      | Inr (fixed, rest) \<Rightarrow> Inr (obj\<lparr>Accounts := fixed, Signers := rest\<rparr>, None))"

definition GetAccounts :: "ThawAccount \<Rightarrow> AccountMetaSlice" where
  "GetAccounts sl = ([] @ Accounts sl) @ Signers sl"

definition NewThawAccountInstructionBuilder :: ThawAccount where
  "NewThawAccountInstructionBuilder = \<lparr>Accounts = replicate 3 None, Signers = replicate 0 None\<rparr>"

definition SetAccount :: "PublicKey \<Rightarrow> ThawAccount \<Rightarrow> panic + ThawAccount" where
  "SetAccount account inst =
     (case set_index (Accounts inst) 0 (Some (WRITE (Meta account))) of
        Inl p \<Rightarrow> Inl p
      | Inr accs \<Rightarrow> Inr (inst\<lparr>Accounts := accs\<rparr>))"

definition GetAccount :: "ThawAccount \<Rightarrow> panic + AccountMeta option" where
  "GetAccount inst = index (Accounts inst) 0"

definition SetMintAccount :: "PublicKey \<Rightarrow> ThawAccount \<Rightarrow> panic + ThawAccount" where
  "SetMintAccount mint inst =
     (case set_index (Accounts inst) 1 (Some (Meta mint)) of
        Inl p \<Rightarrow> Inl p
      | Inr accs \<Rightarrow> Inr (inst\<lparr>Accounts := accs\<rparr>))"

definition GetMintAccount :: "ThawAccount \<Rightarrow> panic + AccountMeta option" where
  "GetMintAccount inst = index (Accounts inst) 1"

text \<open>The loop of \<open>SetAuthorityAccount\<close>: one signer reference appended per address, in order.\<close>

fun append_signers :: "AccountMetaSlice \<Rightarrow> PublicKey list \<Rightarrow> AccountMetaSlice" where
  "append_signers signers [] = signers"
| "append_signers signers (signer # rest) =
     append_signers (signers @ [Some (SIGNER (Meta signer))]) rest"

text \<open>
  Slot 2 receives a new reference; \<open>SIGNER\<close> is then called on that same reference when no
  multisignature signer is given.
\<close>

definition SetAuthorityAccount :: "PublicKey \<Rightarrow> PublicKey list \<Rightarrow> ThawAccount \<Rightarrow> panic + ThawAccount" where
  "SetAuthorityAccount authority multisigSigners inst =
     (case set_index (Accounts inst) 2 (Some (Meta authority)) of
        Inl p \<Rightarrow> Inl p
      | Inr accs \<Rightarrow>
          Inr (inst\<lparr>Accounts :=
                      (if length multisigSigners = 0
                       then accs[2 := Some (SIGNER (Meta authority))] else accs),
                    Signers := append_signers (Signers inst) multisigSigners\<rparr>))"

definition GetAuthorityAccount :: "ThawAccount \<Rightarrow> panic + AccountMeta option" where
  "GetAuthorityAccount inst = index (Accounts inst) 2"

definition Validate :: "ThawAccount \<Rightarrow> panic + error option" where
  "Validate inst =
     (case index (Accounts inst) 0 of
        Inl p \<Rightarrow> Inl p
      | Inr None \<Rightarrow> Inr (Some (errors_New ''accounts.Account is not set''))
      | Inr (Some a0) \<Rightarrow>
     (case index (Accounts inst) 1 of
        Inl p \<Rightarrow> Inl p
      | Inr None \<Rightarrow> Inr (Some (errors_New ''accounts.Mint is not set''))
      | Inr (Some a1) \<Rightarrow>
     (case index (Accounts inst) 2 of
        Inl p \<Rightarrow> Inl p
      | Inr None \<Rightarrow> Inr (Some (errors_New ''accounts.Authority is not set''))
      | Inr (Some a2) \<Rightarrow>
          if \<not> IsSigner a2 \<and> length (Signers inst) = 0
          then Inr (Some (fmt_Errorf ''accounts.Signers is not set'' []))
          else if length (Signers inst) > MAX_SIGNERS
          then Inr (Some (fmt_Errorf ''too many signers; got %v, but max is 11''
                            [length (Signers inst)]))
          else Inr None)))"

section \<open>The instruction envelope\<close>

text \<open>
  The type id of the binary library is an array of eight bytes; \<open>TypeIDFromUint32\<close> writes
  the 32-bit id in the given byte order into the first four and leaves the rest zero, and
  \<open>Uint32\<close> reads the first four back in little-endian order.
\<close>

type_synonym byte = "8 word"

datatype ByteOrder = LittleEndian | BigEndian

definition PutUint32_le :: "32 word \<Rightarrow> byte list" where
  "PutUint32_le v = [ucast v, ucast (drop_bit 8 v), ucast (drop_bit 16 v), ucast (drop_bit 24 v)]"

fun PutUint32 :: "ByteOrder \<Rightarrow> 32 word \<Rightarrow> byte list" where
  "PutUint32 LittleEndian v = PutUint32_le v"
| "PutUint32 BigEndian v = rev (PutUint32_le v)"

definition TypeIDFromUint32 :: "32 word \<Rightarrow> ByteOrder \<Rightarrow> byte list" where
  "TypeIDFromUint32 v bo = PutUint32 bo v @ replicate 4 0"

definition TypeID_Uint32 :: "byte list \<Rightarrow> 32 word" where
  "TypeID_Uint32 vid =
     ucast (vid ! 0) OR push_bit 8 (ucast (vid ! 1)) OR push_bit 16 (ucast (vid ! 2))
       OR push_bit 24 (ucast (vid ! 3))"

record Instruction =
  TypeID :: "byte list"
  Impl :: ThawAccount

text \<open>
  The discriminant \<open>Instruction_ThawAccount\<close> is declared outside the sources and the spec
  does not give its value: \<open>Build\<close> takes it as its first argument.
\<close>

definition Build :: "32 word \<Rightarrow> ThawAccount \<Rightarrow> Instruction" where
  "Build Instruction_ThawAccount inst =
     \<lparr>TypeID = TypeIDFromUint32 Instruction_ThawAccount LittleEndian, Impl = inst\<rparr>"

definition ValidateAndBuild :: "32 word \<Rightarrow> ThawAccount \<Rightarrow> panic + (Instruction option \<times> error option)" where
  "ValidateAndBuild Instruction_ThawAccount inst =
     (case Validate inst of
        Inl p \<Rightarrow> Inl p
      | Inr (Some err) \<Rightarrow> Inr (None, Some err)
      | Inr None \<Rightarrow> Inr (Some (Build Instruction_ThawAccount inst), None))"

text \<open>
  The encoder of the binary library, as the bytes written so far; \<open>WriteUint32\<close> appends
  four bytes in the given byte order.
\<close>

type_synonym Encoder = "byte list"

definition WriteUint32 :: "32 word \<Rightarrow> ByteOrder \<Rightarrow> Encoder \<Rightarrow> error option \<times> Encoder" where
  "WriteUint32 v bo encoder = (None, encoder @ PutUint32 bo v)"

definition MarshalWithEncoder :: "ThawAccount \<Rightarrow> Encoder \<Rightarrow> error option \<times> Encoder" where
  "MarshalWithEncoder obj encoder = (None, encoder)"

text \<open>
  Modelled from the spec: the encoding of the \<open>Instruction\<close> envelope and its \<open>Data\<close> are
  not among the sources. In the spec's words, the encoding of a tagged union writes the
  numeric tag first (four bytes, little-endian) and then delegates to the payload's own
  encoding; the data of an instruction is the tag followed by the encoded payload.
\<close>

definition Instruction_MarshalWithEncoder :: "Instruction \<Rightarrow> Encoder \<Rightarrow> error option \<times> Encoder" where
  "Instruction_MarshalWithEncoder inst encoder =
     (case WriteUint32 (TypeID_Uint32 (TypeID inst)) LittleEndian encoder of
        (Some err, encoder') \<Rightarrow> (Some err, encoder')
      | (None, encoder') \<Rightarrow> MarshalWithEncoder (Impl inst) encoder')"

definition Data :: "Instruction \<Rightarrow> byte list option \<times> error option" where
  "Data inst =
     (case Instruction_MarshalWithEncoder inst [] of
        (Some err, buf) \<Rightarrow> (None, Some err)
      | (None, buf) \<Rightarrow> (Some buf, None))"

section \<open>The convenience constructor\<close>

text \<open>
  A method call on the result of a call: a panic in the first call leaves the second
  uncalled.
\<close>

definition chain :: "panic + 'a \<Rightarrow> ('a \<Rightarrow> panic + 'b) \<Rightarrow> panic + 'b" where
  "chain r f = (case r of Inl p \<Rightarrow> Inl p | Inr x \<Rightarrow> f x)"

definition NewThawAccountInstruction ::
  "PublicKey \<Rightarrow> PublicKey \<Rightarrow> PublicKey \<Rightarrow> PublicKey list \<Rightarrow> panic + ThawAccount" where
  "NewThawAccountInstruction account mint authority multisigSigners =
     chain (chain (SetAccount account NewThawAccountInstructionBuilder)
                  (SetMintAccount mint))
           (SetAuthorityAccount authority multisigSigners)"

section \<open>Shape of a builder\<close>

lemma GetAccounts_append: "GetAccounts inst = Accounts inst @ Signers inst"
  by (simp add: GetAccounts_def)

lemma length3_nths: "length xs = 3 \<Longrightarrow> xs = [xs ! 0, xs ! 1, xs ! 2]"
  by (cases xs; cases "tl xs"; cases "tl (tl xs)") auto

lemma append_signers_eq:
  "append_signers signers ks = signers @ map (\<lambda>k. Some (SIGNER (Meta k))) ks"
  by (induction ks arbitrary: signers) simp_all

lemma NewThawAccountInstructionBuilder_length:
  "length (Accounts NewThawAccountInstructionBuilder) = 3"
  by (simp add: NewThawAccountInstructionBuilder_def)

lemma SetAccount_length:
  "length (Accounts inst) = 3 \<Longrightarrow> \<exists>inst'. SetAccount a inst = Inr inst' \<and> length (Accounts inst') = 3"
  by (simp add: SetAccount_def set_index_def)

lemma SetMintAccount_length:
  "length (Accounts inst) = 3 \<Longrightarrow> \<exists>inst'. SetMintAccount m inst = Inr inst' \<and> length (Accounts inst') = 3"
  by (simp add: SetMintAccount_def set_index_def)

lemma SetAuthorityAccount_length:
  "length (Accounts inst) = 3 \<Longrightarrow>
     \<exists>inst'. SetAuthorityAccount au ks inst = Inr inst' \<and> length (Accounts inst') = 3"
  by (simp add: SetAuthorityAccount_def set_index_def)

section \<open>The discriminant on the wire\<close>

lemma TypeID_Uint32_TypeIDFromUint32: "TypeID_Uint32 (TypeIDFromUint32 v LittleEndian) = v"
proof (rule bit_word_eqI)
  fix n assume n: "n < LENGTH(32)"
  consider "n < 8" | "8 \<le> n" "n < 16" | "16 \<le> n" "n < 24" | "24 \<le> n" by linarith
  then show "bit (TypeID_Uint32 (TypeIDFromUint32 v LittleEndian)) n \<longleftrightarrow> bit v n"
  proof cases
    case 1
    then show ?thesis using n
      by (auto simp: TypeID_Uint32_def TypeIDFromUint32_def PutUint32_le_def bit_simps)
  next
    case 2
    then show ?thesis using n
      by (auto simp: TypeID_Uint32_def TypeIDFromUint32_def PutUint32_le_def bit_simps)
  next
    case 3
    then show ?thesis using n
      by (auto simp: TypeID_Uint32_def TypeIDFromUint32_def PutUint32_le_def bit_simps)
  next
    case 4
    then show ?thesis using n
      by (auto simp: TypeID_Uint32_def TypeIDFromUint32_def PutUint32_le_def bit_simps)
  qed
qed

lemma TypeID_Uint32_PutUint32_le: "TypeID_Uint32 (PutUint32_le v) = v"
  using TypeID_Uint32_TypeIDFromUint32 [of v]
  by (simp add: TypeID_Uint32_def TypeIDFromUint32_def PutUint32_le_def)

lemma Data_Build: "Data (Build tag inst) = (Some (PutUint32_le tag), None)"
  by (simp add: Data_def Instruction_MarshalWithEncoder_def WriteUint32_def
      MarshalWithEncoder_def Build_def TypeID_Uint32_TypeIDFromUint32)

lemma Data_Build_example:
  "Data (Build 11 NewThawAccountInstructionBuilder) = (Some [11, 0, 0, 0], None)"
  by (simp add: Data_Build PutUint32_le_def)

lemma NewThawAccountInstruction_eq:
  "NewThawAccountInstruction a m au ks =
     Inr \<lparr>Accounts = [Some \<lparr>PublicKey = a, IsWritable = True, IsSigner = False\<rparr>,
                      Some \<lparr>PublicKey = m, IsWritable = False, IsSigner = False\<rparr>,
                      Some \<lparr>PublicKey = au, IsWritable = False, IsSigner = (ks = [])\<rparr>],
          Signers = map (\<lambda>k. Some \<lparr>PublicKey = k, IsWritable = False, IsSigner = True\<rparr>) ks\<rparr>"
  by (simp add: NewThawAccountInstruction_def chain_def NewThawAccountInstructionBuilder_def
      SetAccount_def SetMintAccount_def SetAuthorityAccount_def set_index_def
      append_signers_eq Meta_def WRITE_def SIGNER_def numeral_3_eq_3)

section \<open>Account ordering\<close>

text \<open>
  C1. A builder has three fixed slots. For every such builder, \<open>GetAccounts\<close> returns the
  three fixed slots (account, mint, authority) in that order, followed by the signer
  entries in the order of the signer list, and its length is 3 plus the number of signer
  entries. The same list is read from the instruction that \<open>Build\<close> returns. A call of
  \<open>SetAuthorityAccount\<close> puts its signers behind the ones already there, in argument order.
\<close>

theorem GetAccounts_fixed_then_signers:
  assumes "length (Accounts inst) = 3"
  shows "GetAccounts inst = [Accounts inst ! 0, Accounts inst ! 1, Accounts inst ! 2] @ Signers inst
    \<and> length (GetAccounts inst) = 3 + length (Signers inst)
    \<and> GetAccounts (Impl (Build tag inst)) = GetAccounts inst
    \<and> (\<exists>inst'. SetAuthorityAccount au ks inst = Inr inst'
         \<and> length (Accounts inst') = 3
         \<and> Signers inst' = Signers inst @ map (\<lambda>k. Some (SIGNER (Meta k))) ks)"
proof -
  have "Accounts inst = [Accounts inst ! 0, Accounts inst ! 1, Accounts inst ! 2]"
    using assms by (rule length3_nths)
  then have a: "GetAccounts inst = [Accounts inst ! 0, Accounts inst ! 1, Accounts inst ! 2] @ Signers inst"
    by (simp add: GetAccounts_append)
  have b: "length (GetAccounts inst) = 3 + length (Signers inst)"
    using assms by (simp add: GetAccounts_append)
  have c: "GetAccounts (Impl (Build tag inst)) = GetAccounts inst"
    by (simp add: Build_def)
  have d: "\<exists>inst'. SetAuthorityAccount au ks inst = Inr inst'
         \<and> length (Accounts inst') = 3
         \<and> Signers inst' = Signers inst @ map (\<lambda>k. Some (SIGNER (Meta k))) ks"
    using assms by (simp add: SetAuthorityAccount_def set_index_def append_signers_eq)
  from a b c d show ?thesis by blast
qed

theorem GetAccounts_fixed_then_signers_witness:
  "length (Accounts \<lparr>Accounts = [Some (WRITE (Meta 1)), Some (Meta 2), Some (Meta 3)],
                      Signers = [Some (SIGNER (Meta 4))]\<rparr>) = 3
   \<and> GetAccounts \<lparr>Accounts = [Some (WRITE (Meta 1)), Some (Meta 2), Some (Meta 3)],
                   Signers = [Some (SIGNER (Meta 4))]\<rparr>
       = [Some (WRITE (Meta 1)), Some (Meta 2), Some (Meta 3), Some (SIGNER (Meta 4))]
   \<and> length (GetAccounts \<lparr>Accounts = [Some (WRITE (Meta 1)), Some (Meta 2), Some (Meta 3)],
                           Signers = [Some (SIGNER (Meta 4))]\<rparr>) = 4
   \<and> (\<exists>inst'. SetAuthorityAccount 5 [6, 7]
                 \<lparr>Accounts = [Some (WRITE (Meta 1)), Some (Meta 2), Some (Meta 3)],
                    Signers = [Some (SIGNER (Meta 4))]\<rparr> = Inr inst'
         \<and> Signers inst' = [Some (SIGNER (Meta 4)), Some (SIGNER (Meta 6)), Some (SIGNER (Meta 7))])"
  using GetAccounts_fixed_then_signers
    [of "\<lparr>Accounts = [Some (WRITE (Meta 1)), Some (Meta 2), Some (Meta 3)],
           Signers = [Some (SIGNER (Meta 4))]\<rparr>" 11 5 "[6, 7]"]
  by auto

section \<open>The scenario with the authority signing directly\<close>

text \<open>
  C2. On a new builder, \<open>SetAccount A\<close>, \<open>SetMintAccount M\<close> and \<open>SetAuthorityAccount Au\<close>
  with no multisignature signer give a builder on which \<open>Validate\<close> returns nil, whose
  account list is (A, writable, not signer), (M, not writable, not signer),
  (Au, not writable, signer), whose payload encoder writes nothing, and whose built
  instruction has as data the discriminant in four little-endian bytes and nothing else.
\<close>

theorem thaw_direct_authority_scenario:
  "(let b = \<lparr>Accounts = [Some \<lparr>PublicKey = A, IsWritable = True, IsSigner = False\<rparr>,
                          Some \<lparr>PublicKey = M, IsWritable = False, IsSigner = False\<rparr>,
                          Some \<lparr>PublicKey = Au, IsWritable = False, IsSigner = True\<rparr>],
              Signers = []\<rparr>
    in chain (chain (SetAccount A NewThawAccountInstructionBuilder) (SetMintAccount M))
             (SetAuthorityAccount Au []) = Inr b
     \<and> Validate b = Inr None
     \<and> GetAccounts b = [Some \<lparr>PublicKey = A, IsWritable = True, IsSigner = False\<rparr>,
                         Some \<lparr>PublicKey = M, IsWritable = False, IsSigner = False\<rparr>,
                         Some \<lparr>PublicKey = Au, IsWritable = False, IsSigner = True\<rparr>]
     \<and> MarshalWithEncoder b encoder = (None, encoder)
     \<and> Data (Build tag b) = (Some (PutUint32_le tag @ []), None)
     \<and> length (PutUint32_le tag) = 4
     \<and> TypeID_Uint32 (PutUint32_le tag) = tag)"
proof -
  have "chain (chain (SetAccount A NewThawAccountInstructionBuilder) (SetMintAccount M))
             (SetAuthorityAccount Au []) = NewThawAccountInstruction A M Au []"
    by (simp add: NewThawAccountInstruction_def)
  then show ?thesis
    by (simp add: Let_def NewThawAccountInstruction_eq Validate_def index_def GetAccounts_def
        MarshalWithEncoder_def Data_Build TypeID_Uint32_PutUint32_le MAX_SIGNERS_def)
       (simp add: PutUint32_le_def)
qed

section \<open>Validation\<close>

text \<open>On a builder with its three slots, no index of \<open>Validate\<close> is out of range.\<close>

lemma Validate_unfold:
  "length (Accounts inst) = 3 \<Longrightarrow> Validate inst =
     (case Accounts inst ! 0 of
        None \<Rightarrow> Inr (Some (errors_New ''accounts.Account is not set''))
      | Some a0 \<Rightarrow>
     (case Accounts inst ! 1 of
        None \<Rightarrow> Inr (Some (errors_New ''accounts.Mint is not set''))
      | Some a1 \<Rightarrow>
     (case Accounts inst ! 2 of
        None \<Rightarrow> Inr (Some (errors_New ''accounts.Authority is not set''))
      | Some a2 \<Rightarrow>
          if \<not> IsSigner a2 \<and> Signers inst = []
          then Inr (Some (fmt_Errorf ''accounts.Signers is not set'' []))
          else if length (Signers inst) > 11
          then Inr (Some (fmt_Errorf ''too many signers; got %v, but max is 11''
                            [length (Signers inst)]))
          else Inr None)))"
  by (simp add: Validate_def index_def MAX_SIGNERS_def split: option.splits)

text \<open>
  C3, as the code has it. The claim that \<open>Validate\<close> names any unset slot fails where an
  earlier slot is unset too: after \<open>SetAuthorityAccount\<close> on a new builder the mint slot is
  unset, and the error is the one of the account slot, not the one of the mint, and its
  message does not mention the mint.
\<close>

theorem Validate_later_unset_slot_unnamed_counterexample:
  "SetAuthorityAccount 3 [] NewThawAccountInstructionBuilder
     = Inr \<lparr>Accounts = [None, None, Some \<lparr>PublicKey = 3, IsWritable = False, IsSigner = True\<rparr>],
            Signers = []\<rparr>
   \<and> Accounts \<lparr>Accounts = [None, None, Some \<lparr>PublicKey = 3, IsWritable = False, IsSigner = True\<rparr>],
                Signers = []\<rparr> ! 1 = None
   \<and> Validate \<lparr>Accounts = [None, None, Some \<lparr>PublicKey = 3, IsWritable = False, IsSigner = True\<rparr>],
                Signers = []\<rparr>
       = Inr (Some (errors_New ''accounts.Account is not set''))
   \<and> Validate \<lparr>Accounts = [None, None, Some \<lparr>PublicKey = 3, IsWritable = False, IsSigner = True\<rparr>],
                Signers = []\<rparr>
       \<noteq> Inr (Some (errors_New ''accounts.Mint is not set''))
   \<and> \<not> sublist ''Mint'' ''accounts.Account is not set''"
  by (simp add: SetAuthorityAccount_def set_index_def NewThawAccountInstructionBuilder_def
      numeral_3_eq_3 Meta_def SIGNER_def Validate_def index_def sublist_code(3))

text \<open>
  C3, amended. For every builder with its three fixed slots: if a fixed slot is unset,
  \<open>Validate\<close> returns the error that names the first unset slot, in the order account,
  mint, authority, and in any case one of the three missing-account errors; if the three
  slots are set, the authority is not marked signer and the signer list is empty,
  \<open>Validate\<close> returns the missing-signer error.
\<close>

theorem Validate_names_first_unset_slot:
  assumes "length (Accounts inst) = 3"
  shows "(Accounts inst ! 0 = None \<longrightarrow>
            Validate inst = Inr (Some (errors_New ''accounts.Account is not set'')))
    \<and> (Accounts inst ! 0 \<noteq> None \<and> Accounts inst ! 1 = None \<longrightarrow>
          Validate inst = Inr (Some (errors_New ''accounts.Mint is not set'')))
    \<and> (Accounts inst ! 0 \<noteq> None \<and> Accounts inst ! 1 \<noteq> None \<and> Accounts inst ! 2 = None \<longrightarrow>
          Validate inst = Inr (Some (errors_New ''accounts.Authority is not set'')))
    \<and> (\<forall>a2. Accounts inst ! 0 \<noteq> None \<and> Accounts inst ! 1 \<noteq> None \<and> Accounts inst ! 2 = Some a2
            \<and> \<not> IsSigner a2 \<and> Signers inst = [] \<longrightarrow>
          Validate inst = Inr (Some (fmt_Errorf ''accounts.Signers is not set'' [])))
    \<and> ((\<exists>i<3. Accounts inst ! i = None) \<longrightarrow>
          Validate inst = Inr (Some (errors_New ''accounts.Account is not set''))
          \<or> Validate inst = Inr (Some (errors_New ''accounts.Mint is not set''))
          \<or> Validate inst = Inr (Some (errors_New ''accounts.Authority is not set'')))"
proof -
  note v = Validate_unfold [OF assms]
  have account: "Accounts inst ! 0 = None \<longrightarrow>
            Validate inst = Inr (Some (errors_New ''accounts.Account is not set''))"
    by (simp add: v)
  have mint: "Accounts inst ! 0 \<noteq> None \<and> Accounts inst ! 1 = None \<longrightarrow>
          Validate inst = Inr (Some (errors_New ''accounts.Mint is not set''))"
    by (auto simp: v)
  have authority: "Accounts inst ! 0 \<noteq> None \<and> Accounts inst ! 1 \<noteq> None \<and> Accounts inst ! 2 = None \<longrightarrow>
          Validate inst = Inr (Some (errors_New ''accounts.Authority is not set''))"
    by (auto simp: v)
  have signer: "\<forall>a2. Accounts inst ! 0 \<noteq> None \<and> Accounts inst ! 1 \<noteq> None \<and> Accounts inst ! 2 = Some a2
            \<and> \<not> IsSigner a2 \<and> Signers inst = [] \<longrightarrow>
          Validate inst = Inr (Some (fmt_Errorf ''accounts.Signers is not set'' []))"
    by (auto simp: v)
  have some: "(\<exists>i<3. Accounts inst ! i = None) \<longrightarrow>
          Validate inst = Inr (Some (errors_New ''accounts.Account is not set''))
          \<or> Validate inst = Inr (Some (errors_New ''accounts.Mint is not set''))
          \<or> Validate inst = Inr (Some (errors_New ''accounts.Authority is not set''))"
  proof
    assume "\<exists>i<3. Accounts inst ! i = None"
    then obtain i where i: "i < 3" "Accounts inst ! i = None" by blast
    then consider "i = 0" | "i = 1" | "i = 2" by linarith
    then have "Accounts inst ! 0 = None \<or> Accounts inst ! 1 = None \<or> Accounts inst ! 2 = None"
      using i(2) by cases simp_all
    then show "Validate inst = Inr (Some (errors_New ''accounts.Account is not set''))
          \<or> Validate inst = Inr (Some (errors_New ''accounts.Mint is not set''))
          \<or> Validate inst = Inr (Some (errors_New ''accounts.Authority is not set''))"
      using account mint authority by blast
  qed
  from account mint authority signer some show ?thesis by blast
qed

theorem Validate_names_first_unset_slot_witness:
  "length (Accounts \<lparr>Accounts = [None, None, Some (SIGNER (Meta 3))], Signers = []\<rparr>) = 3
   \<and> Validate \<lparr>Accounts = [None, None, Some (SIGNER (Meta 3))], Signers = []\<rparr>
       = Inr (Some (errors_New ''accounts.Account is not set''))
   \<and> Validate \<lparr>Accounts = [Some (WRITE (Meta 1)), None, None], Signers = []\<rparr>
       = Inr (Some (errors_New ''accounts.Mint is not set''))
   \<and> Validate \<lparr>Accounts = [Some (WRITE (Meta 1)), Some (Meta 2), None], Signers = []\<rparr>
       = Inr (Some (errors_New ''accounts.Authority is not set''))
   \<and> Validate \<lparr>Accounts = [Some (WRITE (Meta 1)), Some (Meta 2), Some (Meta 3)], Signers = []\<rparr>
       = Inr (Some (fmt_Errorf ''accounts.Signers is not set'' []))"
  using
    Validate_names_first_unset_slot
      [of "\<lparr>Accounts = [None, None, Some (SIGNER (Meta 3))], Signers = []\<rparr>"]
    Validate_names_first_unset_slot
      [of "\<lparr>Accounts = [Some (WRITE (Meta 1)), None, None], Signers = []\<rparr>"]
    Validate_names_first_unset_slot
      [of "\<lparr>Accounts = [Some (WRITE (Meta 1)), Some (Meta 2), None], Signers = []\<rparr>"]
    Validate_names_first_unset_slot
      [of "\<lparr>Accounts = [Some (WRITE (Meta 1)), Some (Meta 2), Some (Meta 3)], Signers = []\<rparr>"]
  by (simp add: Meta_def)

text \<open>
  C4. For every builder with its three fixed slots set: with more than 11 signer entries
  \<open>Validate\<close> returns the too-many-signers error, carrying the number of entries; with
  exactly 11 it returns nil; with at most 11 it never returns the too-many-signers error,
  and with 1 to 11 entries it returns nil.
\<close>

theorem Validate_too_many_signers:
  assumes "length (Accounts inst) = 3"
    and "Accounts inst ! 0 \<noteq> None" and "Accounts inst ! 1 \<noteq> None" and "Accounts inst ! 2 \<noteq> None"
  shows "(length (Signers inst) > 11 \<longrightarrow>
            Validate inst = Inr (Some (fmt_Errorf ''too many signers; got %v, but max is 11''
                                         [length (Signers inst)])))
    \<and> (length (Signers inst) = 11 \<longrightarrow> Validate inst = Inr None)
    \<and> (length (Signers inst) \<le> 11 \<longrightarrow>
          (\<forall>n. Validate inst \<noteq> Inr (Some (fmt_Errorf ''too many signers; got %v, but max is 11'' [n]))))
    \<and> (1 \<le> length (Signers inst) \<and> length (Signers inst) \<le> 11 \<longrightarrow> Validate inst = Inr None)"
  using assms by (auto simp: Validate_unfold split: if_splits)

theorem Validate_too_many_signers_witness:
  "length (replicate 12 (Some (SIGNER (Meta 4)))) > 11
   \<and> Validate \<lparr>Accounts = [Some (WRITE (Meta 1)), Some (Meta 2), Some (Meta 3)],
                Signers = replicate 12 (Some (SIGNER (Meta 4)))\<rparr>
       = Inr (Some (fmt_Errorf ''too many signers; got %v, but max is 11'' [12]))
   \<and> length (replicate 11 (Some (SIGNER (Meta 4)))) = 11
   \<and> Validate \<lparr>Accounts = [Some (WRITE (Meta 1)), Some (Meta 2), Some (Meta 3)],
                Signers = replicate 11 (Some (SIGNER (Meta 4)))\<rparr>
       = Inr None"
  using
    Validate_too_many_signers
      [of "\<lparr>Accounts = [Some (WRITE (Meta 1)), Some (Meta 2), Some (Meta 3)],
             Signers = replicate 12 (Some (SIGNER (Meta 4)))\<rparr>"]
    Validate_too_many_signers
      [of "\<lparr>Accounts = [Some (WRITE (Meta 1)), Some (Meta 2), Some (Meta 3)],
             Signers = replicate 11 (Some (SIGNER (Meta 4)))\<rparr>"]
  by simp

text \<open>
  C7, as the code has it. The claim that \<open>Validate\<close> lists every unset slot in one error
  fails on the new builder: its three slots are unset and the error is the one of the
  account slot, whose message mentions neither the mint nor the authority.
\<close>

theorem Validate_reports_first_unset_only_counterexample:
  "Accounts NewThawAccountInstructionBuilder ! 0 = None
   \<and> Accounts NewThawAccountInstructionBuilder ! 1 = None
   \<and> Accounts NewThawAccountInstructionBuilder ! 2 = None
   \<and> Validate NewThawAccountInstructionBuilder = Inr (Some (errors_New ''accounts.Account is not set''))
   \<and> \<not> sublist ''Mint'' ''accounts.Account is not set''
   \<and> \<not> sublist ''Authority'' ''accounts.Account is not set''"
  by (simp add: NewThawAccountInstructionBuilder_def Validate_def index_def numeral_3_eq_3 sublist_code(3))

text \<open>
  C7, amended. When one or more fixed slots are unset, \<open>Validate\<close> returns the error of the
  first unset slot alone, in the order account, mint, authority, and stops there: any
  builder that agrees on the slots up to that one gets the same result, whatever its later
  slots and signers are.
\<close>

theorem Validate_first_unset_only:
  assumes "length (Accounts inst) = 3" and "i < 3" and "Accounts inst ! i = None"
    and "\<forall>j<i. Accounts inst ! j \<noteq> None"
  shows "Validate inst = Inr (Some (errors_New
            (''accounts.'' @ [''Account'', ''Mint'', ''Authority''] ! i @ '' is not set'')))
    \<and> (\<forall>inst'. length (Accounts inst') = 3 \<and> (\<forall>j\<le>i. Accounts inst' ! j = Accounts inst ! j)
          \<longrightarrow> Validate inst' = Validate inst)"
proof -
  have eq: "Validate inst' = Validate inst"
    if "length (Accounts inst') = 3" and "\<forall>j\<le>i. Accounts inst' ! j = Accounts inst ! j"
      and "Validate inst = Inr (Some (errors_New
            (''accounts.'' @ [''Account'', ''Mint'', ''Authority''] ! i @ '' is not set'')))" for inst'
  proof -
    consider "i = 0" | "i = 1" | "i = 2" using assms(2) by linarith
    then show ?thesis
    proof cases
      case 1
      then have "Accounts inst' ! 0 = None" using that(2) assms(3) by simp
      then show ?thesis using 1 that(1,3) by (simp add: Validate_unfold)
    next
      case 2
      then have "Accounts inst' ! 0 = Accounts inst ! 0" "Accounts inst' ! 1 = None"
        using that(2) assms(3) by simp_all
      moreover have "Accounts inst ! 0 \<noteq> None" using 2 assms(4) by simp
      ultimately show ?thesis using 2 that(1,3) by (auto simp: Validate_unfold)
    next
      case 3
      then have "Accounts inst' ! 0 = Accounts inst ! 0" "Accounts inst' ! 1 = Accounts inst ! 1"
        "Accounts inst' ! 2 = None"
        using that(2) assms(3) by simp_all
      moreover have "Accounts inst ! 0 \<noteq> None" "Accounts inst ! 1 \<noteq> None"
        using 3 assms(4) by simp_all
      ultimately show ?thesis using 3 that(1,3) by (auto simp: Validate_unfold)
    qed
  qed
  have v: "Validate inst = Inr (Some (errors_New
            (''accounts.'' @ [''Account'', ''Mint'', ''Authority''] ! i @ '' is not set'')))"
  proof -
    consider "i = 0" | "i = 1" | "i = 2" using assms(2) by linarith
    then show ?thesis
    proof cases
      case 1
      then show ?thesis using assms(1,3) by (simp add: Validate_unfold)
    next
      case 2
      moreover have "Accounts inst ! 0 \<noteq> None" using 2 assms(4) by simp
      ultimately show ?thesis using assms(1,3) by (auto simp: Validate_unfold)
    next
      case 3
      moreover have "Accounts inst ! 0 \<noteq> None" "Accounts inst ! 1 \<noteq> None"
        using 3 assms(4) by simp_all
      ultimately show ?thesis using assms(1,3) by (auto simp: Validate_unfold)
    qed
  qed
  from v eq show ?thesis by blast
qed

theorem Validate_first_unset_only_witness:
  "Validate \<lparr>Accounts = [Some (WRITE (Meta 1)), None, None], Signers = []\<rparr>
       = Inr (Some (errors_New ''accounts.Mint is not set''))
   \<and> Validate \<lparr>Accounts = [Some (WRITE (Meta 1)), None, Some (SIGNER (Meta 3))], Signers = []\<rparr>
       = Validate \<lparr>Accounts = [Some (WRITE (Meta 1)), None, None], Signers = []\<rparr>"
proof -
  have h1: "length (Accounts \<lparr>Accounts = [Some (WRITE (Meta 1)), None, None], Signers = []\<rparr>) = 3"
    by simp
  have h2: "(1::nat) < 3" by simp
  have h3: "Accounts \<lparr>Accounts = [Some (WRITE (Meta 1)), None, None], Signers = []\<rparr> ! 1 = None"
    by simp
  have h4: "\<forall>j<1. Accounts \<lparr>Accounts = [Some (WRITE (Meta 1)), None, None], Signers = []\<rparr> ! j \<noteq> None"
    by simp
  have h5: "length (Accounts \<lparr>Accounts = [Some (WRITE (Meta 1)), None, Some (SIGNER (Meta 3))], Signers = []\<rparr>) = 3
    \<and> (\<forall>j\<le>1. Accounts \<lparr>Accounts = [Some (WRITE (Meta 1)), None, Some (SIGNER (Meta 3))], Signers = []\<rparr> ! j
              = Accounts \<lparr>Accounts = [Some (WRITE (Meta 1)), None, None], Signers = []\<rparr> ! j)"
    by (simp add: le_Suc_eq)
  from Validate_first_unset_only [OF h1 h2 h3 h4] h5 show ?thesis
    by auto
qed

section \<open>The setters\<close>

lemma SetAuthorityAccount_eq:
  "length (Accounts inst) = 3 \<Longrightarrow>
   SetAuthorityAccount au ks inst =
     Inr (inst\<lparr>Accounts := (Accounts inst)[2 := Some \<lparr>PublicKey = au, IsWritable = False, IsSigner = (ks = [])\<rparr>],
               Signers := Signers inst @ map (\<lambda>k. Some \<lparr>PublicKey = k, IsWritable = False, IsSigner = True\<rparr>) ks\<rparr>)"
  by (simp add: SetAuthorityAccount_def set_index_def append_signers_eq Meta_def SIGNER_def)

lemma SetAccount_eq:
  "length (Accounts inst) = 3 \<Longrightarrow>
   SetAccount a inst =
     Inr (inst\<lparr>Accounts := (Accounts inst)[0 := Some \<lparr>PublicKey = a, IsWritable = True, IsSigner = False\<rparr>]\<rparr>)"
  by (simp add: SetAccount_def set_index_def Meta_def WRITE_def)

lemma SetMintAccount_eq:
  "length (Accounts inst) = 3 \<Longrightarrow>
   SetMintAccount m inst =
     Inr (inst\<lparr>Accounts := (Accounts inst)[1 := Some \<lparr>PublicKey = m, IsWritable = False, IsSigner = False\<rparr>]\<rparr>)"
  by (simp add: SetMintAccount_def set_index_def Meta_def)

text \<open>
  C5, as the code has it. The claim that the account list has length 5 after a call with
  two multisignature signers fails on a builder that holds a signer already: after
  \<open>SetAuthorityAccount\<close> with one signer on a new builder, a call with two signers leaves
  three signer entries and an account list of length 6.
\<close>

theorem SetAuthorityAccount_length_not_five_counterexample:
  "SetAuthorityAccount 3 [6] NewThawAccountInstructionBuilder
     = Inr \<lparr>Accounts = [None, None, Some \<lparr>PublicKey = 3, IsWritable = False, IsSigner = False\<rparr>],
            Signers = [Some \<lparr>PublicKey = 6, IsWritable = False, IsSigner = True\<rparr>]\<rparr>
   \<and> SetAuthorityAccount 3 [4, 5]
        \<lparr>Accounts = [None, None, Some \<lparr>PublicKey = 3, IsWritable = False, IsSigner = False\<rparr>],
           Signers = [Some \<lparr>PublicKey = 6, IsWritable = False, IsSigner = True\<rparr>]\<rparr>
     = Inr \<lparr>Accounts = [None, None, Some \<lparr>PublicKey = 3, IsWritable = False, IsSigner = False\<rparr>],
            Signers = [Some \<lparr>PublicKey = 6, IsWritable = False, IsSigner = True\<rparr>,
                       Some \<lparr>PublicKey = 4, IsWritable = False, IsSigner = True\<rparr>,
                       Some \<lparr>PublicKey = 5, IsWritable = False, IsSigner = True\<rparr>]\<rparr>
   \<and> length (GetAccounts
        \<lparr>Accounts = [None, None, Some \<lparr>PublicKey = 3, IsWritable = False, IsSigner = False\<rparr>],
           Signers = [Some \<lparr>PublicKey = 6, IsWritable = False, IsSigner = True\<rparr>,
                      Some \<lparr>PublicKey = 4, IsWritable = False, IsSigner = True\<rparr>,
                      Some \<lparr>PublicKey = 5, IsWritable = False, IsSigner = True\<rparr>]\<rparr>) = 6
   \<and> length (GetAccounts
        \<lparr>Accounts = [None, None, Some \<lparr>PublicKey = 3, IsWritable = False, IsSigner = False\<rparr>],
           Signers = [Some \<lparr>PublicKey = 6, IsWritable = False, IsSigner = True\<rparr>,
                      Some \<lparr>PublicKey = 4, IsWritable = False, IsSigner = True\<rparr>,
                      Some \<lparr>PublicKey = 5, IsWritable = False, IsSigner = True\<rparr>]\<rparr>) \<noteq> 5"
  by (simp add: SetAuthorityAccount_def set_index_def NewThawAccountInstructionBuilder_def
      numeral_3_eq_3 Meta_def SIGNER_def GetAccounts_def)

text \<open>
  C5, amended. For every builder with its three fixed slots and every authority address:
  \<open>SetAuthorityAccount\<close> with one or more multisignature signers sets slot 2 to the
  authority, not writable and not signer, and appends one reference per signer, not
  writable and signer, in argument order; with no signer it sets slot 2 to the authority
  marked signer. With two signers the two references come last in the account list, whose
  length is 5 plus the number of signer entries held before, hence 5 on a builder that held
  none; in the spec's scenario (account, mint, then the authority with two signers on a
  new builder) the list is the three fixed entries and the two signers.
\<close>

theorem SetAuthorityAccount_signers:
  assumes "length (Accounts inst) = 3"
  shows "(ks \<noteq> [] \<longrightarrow>
            SetAuthorityAccount au ks inst =
              Inr (inst\<lparr>Accounts := (Accounts inst)[2 := Some \<lparr>PublicKey = au, IsWritable = False, IsSigner = False\<rparr>],
                        Signers := Signers inst @ map (\<lambda>k. Some \<lparr>PublicKey = k, IsWritable = False, IsSigner = True\<rparr>) ks\<rparr>))
    \<and> SetAuthorityAccount au [] inst =
          Inr (inst\<lparr>Accounts := (Accounts inst)[2 := Some \<lparr>PublicKey = au, IsWritable = False, IsSigner = True\<rparr>]\<rparr>)
    \<and> (\<exists>inst'. SetAuthorityAccount au [s1, s2] inst = Inr inst'
          \<and> GetAccounts inst' =
              [Accounts inst ! 0, Accounts inst ! 1, Some \<lparr>PublicKey = au, IsWritable = False, IsSigner = False\<rparr>]
              @ Signers inst
              @ [Some \<lparr>PublicKey = s1, IsWritable = False, IsSigner = True\<rparr>,
                 Some \<lparr>PublicKey = s2, IsWritable = False, IsSigner = True\<rparr>]
          \<and> length (GetAccounts inst') = 5 + length (Signers inst)
          \<and> (Signers inst = [] \<longrightarrow> length (GetAccounts inst') = 5))
    \<and> (\<exists>b. NewThawAccountInstruction a m au [s1, s2] = Inr b
          \<and> GetAccounts b =
              [Some \<lparr>PublicKey = a, IsWritable = True, IsSigner = False\<rparr>,
               Some \<lparr>PublicKey = m, IsWritable = False, IsSigner = False\<rparr>,
               Some \<lparr>PublicKey = au, IsWritable = False, IsSigner = False\<rparr>,
               Some \<lparr>PublicKey = s1, IsWritable = False, IsSigner = True\<rparr>,
               Some \<lparr>PublicKey = s2, IsWritable = False, IsSigner = True\<rparr>]
          \<and> length (GetAccounts b) = 5)"
proof -
  have xs: "Accounts inst = [Accounts inst ! 0, Accounts inst ! 1, Accounts inst ! 2]"
    using assms by (rule length3_nths)
  have "(Accounts inst)[2 := v] = [Accounts inst ! 0, Accounts inst ! 1, v]" for v
    by (subst xs) simp
  then have general: "(ks \<noteq> [] \<longrightarrow>
            SetAuthorityAccount au ks inst =
              Inr (inst\<lparr>Accounts := (Accounts inst)[2 := Some \<lparr>PublicKey = au, IsWritable = False, IsSigner = False\<rparr>],
                        Signers := Signers inst @ map (\<lambda>k. Some \<lparr>PublicKey = k, IsWritable = False, IsSigner = True\<rparr>) ks\<rparr>))
    \<and> SetAuthorityAccount au [] inst =
          Inr (inst\<lparr>Accounts := (Accounts inst)[2 := Some \<lparr>PublicKey = au, IsWritable = False, IsSigner = True\<rparr>]\<rparr>)
    \<and> (\<exists>inst'. SetAuthorityAccount au [s1, s2] inst = Inr inst'
          \<and> GetAccounts inst' =
              [Accounts inst ! 0, Accounts inst ! 1, Some \<lparr>PublicKey = au, IsWritable = False, IsSigner = False\<rparr>]
              @ Signers inst
              @ [Some \<lparr>PublicKey = s1, IsWritable = False, IsSigner = True\<rparr>,
                 Some \<lparr>PublicKey = s2, IsWritable = False, IsSigner = True\<rparr>]
          \<and> length (GetAccounts inst') = 5 + length (Signers inst)
          \<and> (Signers inst = [] \<longrightarrow> length (GetAccounts inst') = 5))"
    using assms by (simp add: SetAuthorityAccount_eq GetAccounts_append)
  have scenario: "\<exists>b. NewThawAccountInstruction a m au [s1, s2] = Inr b
          \<and> GetAccounts b =
              [Some \<lparr>PublicKey = a, IsWritable = True, IsSigner = False\<rparr>,
               Some \<lparr>PublicKey = m, IsWritable = False, IsSigner = False\<rparr>,
               Some \<lparr>PublicKey = au, IsWritable = False, IsSigner = False\<rparr>,
               Some \<lparr>PublicKey = s1, IsWritable = False, IsSigner = True\<rparr>,
               Some \<lparr>PublicKey = s2, IsWritable = False, IsSigner = True\<rparr>]
          \<and> length (GetAccounts b) = 5"
    by (simp add: NewThawAccountInstruction_eq GetAccounts_append)
  from general scenario show ?thesis by blast
qed

theorem SetAuthorityAccount_signers_witness:
  "length (Accounts NewThawAccountInstructionBuilder) = 3
   \<and> [4, 5] \<noteq> ([] :: PublicKey list)
   \<and> SetAuthorityAccount 3 [4, 5] NewThawAccountInstructionBuilder =
       Inr \<lparr>Accounts = [None, None, Some \<lparr>PublicKey = 3, IsWritable = False, IsSigner = False\<rparr>],
            Signers = [Some \<lparr>PublicKey = 4, IsWritable = False, IsSigner = True\<rparr>,
                       Some \<lparr>PublicKey = 5, IsWritable = False, IsSigner = True\<rparr>]\<rparr>
   \<and> SetAuthorityAccount 3 [] NewThawAccountInstructionBuilder =
       Inr \<lparr>Accounts = [None, None, Some \<lparr>PublicKey = 3, IsWritable = False, IsSigner = True\<rparr>],
            Signers = []\<rparr>
   \<and> (\<exists>inst'. SetAuthorityAccount 3 [4, 5] NewThawAccountInstructionBuilder = Inr inst'
         \<and> length (GetAccounts inst') = 5)
   \<and> (\<exists>inst'. SetAuthorityAccount 3 [4, 5]
                 \<lparr>Accounts = [None, None, Some \<lparr>PublicKey = 3, IsWritable = False, IsSigner = False\<rparr>],
                    Signers = [Some \<lparr>PublicKey = 6, IsWritable = False, IsSigner = True\<rparr>]\<rparr> = Inr inst'
         \<and> length (GetAccounts inst') = 6)"
  using SetAuthorityAccount_signers [of NewThawAccountInstructionBuilder "[4, 5]" 3 4 5 1 2]
    SetAuthorityAccount_signers
      [of "\<lparr>Accounts = [None, None, Some \<lparr>PublicKey = 3, IsWritable = False, IsSigner = False\<rparr>],
             Signers = [Some \<lparr>PublicKey = 6, IsWritable = False, IsSigner = True\<rparr>]\<rparr>" "[4, 5]" 3 4 5 1 2]
  by (auto simp: NewThawAccountInstructionBuilder_def numeral_3_eq_3 GetAccounts_def)

text \<open>
  C6, as the code has it. The claim that every setter is idempotent fails for
  \<open>SetAuthorityAccount\<close> with a multisignature signer: on the new builder, two calls with
  the same signer leave two signer entries, one call leaves one.
\<close>

theorem SetAuthorityAccount_not_idempotent_counterexample:
  "chain (SetAuthorityAccount 3 [4] NewThawAccountInstructionBuilder) (SetAuthorityAccount 3 [4])
     = Inr \<lparr>Accounts = [None, None, Some \<lparr>PublicKey = 3, IsWritable = False, IsSigner = False\<rparr>],
            Signers = [Some \<lparr>PublicKey = 4, IsWritable = False, IsSigner = True\<rparr>,
                       Some \<lparr>PublicKey = 4, IsWritable = False, IsSigner = True\<rparr>]\<rparr>
   \<and> SetAuthorityAccount 3 [4] NewThawAccountInstructionBuilder
     = Inr \<lparr>Accounts = [None, None, Some \<lparr>PublicKey = 3, IsWritable = False, IsSigner = False\<rparr>],
            Signers = [Some \<lparr>PublicKey = 4, IsWritable = False, IsSigner = True\<rparr>]\<rparr>
   \<and> chain (SetAuthorityAccount 3 [4] NewThawAccountInstructionBuilder) (SetAuthorityAccount 3 [4])
     \<noteq> SetAuthorityAccount 3 [4] NewThawAccountInstructionBuilder"
  by (simp add: chain_def SetAuthorityAccount_def set_index_def NewThawAccountInstructionBuilder_def
      numeral_3_eq_3 Meta_def SIGNER_def)

text \<open>
  C6, amended. On a builder with its three fixed slots, \<open>SetAccount\<close> overwrites slot 0 and
  nothing else, \<open>SetMintAccount\<close> overwrites slot 1 and nothing else, and both are
  idempotent. \<open>SetAuthorityAccount\<close> overwrites slot 2 and appends its signers to the signer
  list; called twice with the same arguments it appends them twice, so it is idempotent
  exactly when it is given no multisignature signer.
\<close>

theorem setters_overwrite_and_idempotence:
  assumes "length (Accounts inst) = 3"
  shows "SetAccount a inst = Inr (inst\<lparr>Accounts := (Accounts inst)[0 := Some (WRITE (Meta a))]\<rparr>)
    \<and> chain (SetAccount a inst) (SetAccount a) = SetAccount a inst
    \<and> SetMintAccount m inst = Inr (inst\<lparr>Accounts := (Accounts inst)[1 := Some (Meta m)]\<rparr>)
    \<and> chain (SetMintAccount m inst) (SetMintAccount m) = SetMintAccount m inst
    \<and> SetAuthorityAccount au ks inst =
        Inr (inst\<lparr>Accounts := (Accounts inst)[2 := Some (if ks = [] then SIGNER (Meta au) else Meta au)],
                  Signers := Signers inst @ map (\<lambda>k. Some (SIGNER (Meta k))) ks\<rparr>)
    \<and> chain (SetAuthorityAccount au ks inst) (SetAuthorityAccount au ks) =
        Inr (inst\<lparr>Accounts := (Accounts inst)[2 := Some (if ks = [] then SIGNER (Meta au) else Meta au)],
                  Signers := Signers inst @ map (\<lambda>k. Some (SIGNER (Meta k))) ks
                               @ map (\<lambda>k. Some (SIGNER (Meta k))) ks\<rparr>)
    \<and> (chain (SetAuthorityAccount au ks inst) (SetAuthorityAccount au ks) = SetAuthorityAccount au ks inst
          \<longleftrightarrow> ks = [])"
proof -
  have a: "SetAccount a inst = Inr (inst\<lparr>Accounts := (Accounts inst)[0 := Some (WRITE (Meta a))]\<rparr>)"
    using assms by (simp add: SetAccount_def set_index_def)
  have a2: "chain (SetAccount a inst) (SetAccount a) = SetAccount a inst"
    using assms by (simp add: chain_def SetAccount_def set_index_def)
  have m: "SetMintAccount m inst = Inr (inst\<lparr>Accounts := (Accounts inst)[1 := Some (Meta m)]\<rparr>)"
    using assms by (simp add: SetMintAccount_def set_index_def)
  have m2: "chain (SetMintAccount m inst) (SetMintAccount m) = SetMintAccount m inst"
    using assms by (simp add: chain_def SetMintAccount_def set_index_def)
  have u: "SetAuthorityAccount au ks inst =
        Inr (inst\<lparr>Accounts := (Accounts inst)[2 := Some (if ks = [] then SIGNER (Meta au) else Meta au)],
                  Signers := Signers inst @ map (\<lambda>k. Some (SIGNER (Meta k))) ks\<rparr>)"
    using assms by (simp add: SetAuthorityAccount_def set_index_def append_signers_eq)
  have u2: "chain (SetAuthorityAccount au ks inst) (SetAuthorityAccount au ks) =
        Inr (inst\<lparr>Accounts := (Accounts inst)[2 := Some (if ks = [] then SIGNER (Meta au) else Meta au)],
                  Signers := Signers inst @ map (\<lambda>k. Some (SIGNER (Meta k))) ks
                               @ map (\<lambda>k. Some (SIGNER (Meta k))) ks\<rparr>)"
    using assms by (simp add: chain_def SetAuthorityAccount_def set_index_def append_signers_eq)
  have r: "(inst\<lparr>Accounts := xs, Signers := ys\<rparr> = inst\<lparr>Accounts := xs, Signers := zs\<rparr>) \<longleftrightarrow> ys = zs"
    for xs ys zs
    by (cases inst) simp
  have "(chain (SetAuthorityAccount au ks inst) (SetAuthorityAccount au ks) = SetAuthorityAccount au ks inst)
      \<longleftrightarrow> (Inr (inst\<lparr>Accounts := (Accounts inst)[2 := Some (if ks = [] then SIGNER (Meta au) else Meta au)],
                  Signers := Signers inst @ map (\<lambda>k. Some (SIGNER (Meta k))) ks
                               @ map (\<lambda>k. Some (SIGNER (Meta k))) ks\<rparr>)
           = (Inr (inst\<lparr>Accounts := (Accounts inst)[2 := Some (if ks = [] then SIGNER (Meta au) else Meta au)],
                  Signers := Signers inst @ map (\<lambda>k. Some (SIGNER (Meta k))) ks\<rparr>) :: panic + ThawAccount))"
    by (subst u2, subst u) (rule refl)
  also have "\<dots> \<longleftrightarrow> ks = []"
    by (simp add: r)
  finally have u3: "chain (SetAuthorityAccount au ks inst) (SetAuthorityAccount au ks) = SetAuthorityAccount au ks inst
          \<longleftrightarrow> ks = []" .
  from a a2 m m2 u u2 u3 show ?thesis by blast
qed

theorem setters_overwrite_and_idempotence_witness:
  "length (Accounts NewThawAccountInstructionBuilder) = 3
   \<and> chain (SetAccount 1 NewThawAccountInstructionBuilder) (SetAccount 1)
       = SetAccount 1 NewThawAccountInstructionBuilder
   \<and> chain (SetMintAccount 2 NewThawAccountInstructionBuilder) (SetMintAccount 2)
       = SetMintAccount 2 NewThawAccountInstructionBuilder
   \<and> chain (SetAuthorityAccount 3 [] NewThawAccountInstructionBuilder) (SetAuthorityAccount 3 [])
       = SetAuthorityAccount 3 [] NewThawAccountInstructionBuilder"
proof -
  have h: "length (Accounts NewThawAccountInstructionBuilder) = 3"
    by (simp add: NewThawAccountInstructionBuilder_def)
  from setters_overwrite_and_idempotence [OF h, of 1 2 3 "[]"] h show ?thesis
    by blast
qed

section \<open>Validate and build\<close>

lemma Validate_no_panic:
  "length (Accounts inst) = 3 \<Longrightarrow> \<exists>r. Validate inst = Inr r"
  by (simp add: Validate_unfold split: option.splits)

text \<open>
  C8. For every builder with its three fixed slots, \<open>Validate\<close> returns either an error or
  nil. \<open>ValidateAndBuild\<close> returns a nil instruction and an error exactly when \<open>Validate\<close>
  returns an error, and the error is that one; when \<open>Validate\<close> returns nil it returns the
  instruction of \<open>Build\<close> and a nil error, and that instruction carries the discriminant
  and the account list, fixed slots first and then the signers.
\<close>

theorem ValidateAndBuild_cases:
  assumes "length (Accounts inst) = 3"
  shows "((\<exists>err. Validate inst = Inr (Some err)) \<longleftrightarrow>
            (\<exists>err. ValidateAndBuild tag inst = Inr (None, Some err)))
    \<and> (\<forall>err. Validate inst = Inr (Some err) \<longrightarrow> ValidateAndBuild tag inst = Inr (None, Some err))
    \<and> (Validate inst = Inr None \<longrightarrow>
          ValidateAndBuild tag inst = Inr (Some (Build tag inst), None)
          \<and> TypeID_Uint32 (TypeID (Build tag inst)) = tag
          \<and> GetAccounts (Impl (Build tag inst))
              = [Accounts inst ! 0, Accounts inst ! 1, Accounts inst ! 2] @ Signers inst)
    \<and> ((\<exists>err. Validate inst = Inr (Some err)) \<or> Validate inst = Inr None)"
proof -
  have xs: "Accounts inst = [Accounts inst ! 0, Accounts inst ! 1, Accounts inst ! 2]"
    using assms by (rule length3_nths)
  have g: "GetAccounts (Impl (Build tag inst))
              = [Accounts inst ! 0, Accounts inst ! 1, Accounts inst ! 2] @ Signers inst"
    by (subst xs [symmetric]) (simp add: Build_def GetAccounts_append)
  have t: "TypeID_Uint32 (TypeID (Build tag inst)) = tag"
    by (simp add: Build_def TypeID_Uint32_TypeIDFromUint32)
  obtain r where r: "Validate inst = Inr r"
    using Validate_no_panic [OF assms] by blast
  show ?thesis
    using g t by (cases r) (simp_all add: r ValidateAndBuild_def)
qed

theorem ValidateAndBuild_cases_witness:
  "length (Accounts NewThawAccountInstructionBuilder) = 3
   \<and> Validate NewThawAccountInstructionBuilder = Inr (Some (errors_New ''accounts.Account is not set''))
   \<and> ValidateAndBuild 11 NewThawAccountInstructionBuilder
       = Inr (None, Some (errors_New ''accounts.Account is not set''))
   \<and> Validate \<lparr>Accounts = [Some (WRITE (Meta 1)), Some (Meta 2), Some (SIGNER (Meta 3))], Signers = []\<rparr>
       = Inr None
   \<and> ValidateAndBuild 11 \<lparr>Accounts = [Some (WRITE (Meta 1)), Some (Meta 2), Some (SIGNER (Meta 3))], Signers = []\<rparr>
       = Inr (Some (Build 11 \<lparr>Accounts = [Some (WRITE (Meta 1)), Some (Meta 2), Some (SIGNER (Meta 3))], Signers = []\<rparr>), None)"
proof -
  have h: "length (Accounts NewThawAccountInstructionBuilder) = 3"
    by (simp add: NewThawAccountInstructionBuilder_def)
  have v: "Validate NewThawAccountInstructionBuilder = Inr (Some (errors_New ''accounts.Account is not set''))"
    by (simp add: Validate_def index_def NewThawAccountInstructionBuilder_def numeral_3_eq_3)
  have h': "length (Accounts \<lparr>Accounts = [Some (WRITE (Meta 1)), Some (Meta 2), Some (SIGNER (Meta 3))], Signers = []\<rparr>) = 3"
    by simp
  have v': "Validate \<lparr>Accounts = [Some (WRITE (Meta 1)), Some (Meta 2), Some (SIGNER (Meta 3))], Signers = []\<rparr> = Inr None"
    by (simp add: Validate_def index_def SIGNER_def Meta_def MAX_SIGNERS_def)
  from ValidateAndBuild_cases [OF h, of 11] ValidateAndBuild_cases [OF h', of 11] h v v'
  show ?thesis by blast
qed

section \<open>Splitting and joining the account list\<close>

text \<open>
  C9. For every list of at least three account references, \<open>SetAccounts\<close> returns a nil
  error and stores the first three entries as the fixed slots and the remaining entries
  as the signers, both in their order, and \<open>GetAccounts\<close> then returns the list itself.
\<close>

theorem SetAccounts_GetAccounts:
  assumes "3 \<le> length accounts"
  shows "\<exists>obj'. SetAccounts accounts obj = Inr (obj', None)
           \<and> Accounts obj' = take 3 accounts
           \<and> Signers obj' = drop 3 accounts
           \<and> length (Accounts obj') = 3
           \<and> Accounts obj' = [accounts ! 0, accounts ! 1, accounts ! 2]
           \<and> (\<forall>i < length accounts - 3. Signers obj' ! i = accounts ! (3 + i))
           \<and> GetAccounts obj' = accounts"
proof -
  have t: "take 3 accounts = [accounts ! 0, accounts ! 1, accounts ! 2]"
    using assms length3_nths [of "take 3 accounts"] by simp
  have s: "SetAccounts accounts obj
             = Inr (obj\<lparr>Accounts := take 3 accounts, Signers := drop 3 accounts\<rparr>, None)"
    using assms by (simp add: SetAccounts_def SplitFrom_def)
  have g: "GetAccounts (obj\<lparr>Accounts := take 3 accounts, Signers := drop 3 accounts\<rparr>) = accounts"
    by (simp add: GetAccounts_append)
  have n: "\<forall>i < length accounts - 3. drop 3 accounts ! i = accounts ! (3 + i)"
    using assms by simp
  have l: "length (take 3 accounts) = 3"
    using assms by simp
  show ?thesis
    using s g n l t by (intro exI [of _ "obj\<lparr>Accounts := take 3 accounts, Signers := drop 3 accounts\<rparr>"]) simp
qed

theorem SetAccounts_GetAccounts_witness:
  "3 \<le> length [Some (WRITE (Meta 1)), Some (Meta 2), Some (Meta 3), Some (SIGNER (Meta 4)), Some (SIGNER (Meta 5))]
   \<and> (\<exists>obj'. SetAccounts [Some (WRITE (Meta 1)), Some (Meta 2), Some (Meta 3), Some (SIGNER (Meta 4)), Some (SIGNER (Meta 5))]
                NewThawAccountInstructionBuilder = Inr (obj', None)
         \<and> Accounts obj' = [Some (WRITE (Meta 1)), Some (Meta 2), Some (Meta 3)]
         \<and> Signers obj' = [Some (SIGNER (Meta 4)), Some (SIGNER (Meta 5))]
         \<and> GetAccounts obj' = [Some (WRITE (Meta 1)), Some (Meta 2), Some (Meta 3), Some (SIGNER (Meta 4)), Some (SIGNER (Meta 5))])"
  using SetAccounts_GetAccounts
    [of "[Some (WRITE (Meta 1)), Some (Meta 2), Some (Meta 3), Some (SIGNER (Meta 4)), Some (SIGNER (Meta 5))]"
        NewThawAccountInstructionBuilder]
  by (auto simp: numeral_3_eq_3)

section \<open>The convenience constructor and the setter chain\<close>

text \<open>
  C10. For all addresses and every list of multisignature signers, the three setters
  called in turn on a new builder do not panic, and \<open>NewThawAccountInstruction\<close> returns
  the builder that the last of them returns; that builder is given in full.
\<close>

theorem NewThawAccountInstruction_is_setter_chain:
  "\<exists>b1 b2 b3.
      SetAccount a NewThawAccountInstructionBuilder = Inr b1
    \<and> SetMintAccount m b1 = Inr b2
    \<and> SetAuthorityAccount au ks b2 = Inr b3
    \<and> NewThawAccountInstruction a m au ks = Inr b3
    \<and> b3 = \<lparr>Accounts = [Some (WRITE (Meta a)), Some (Meta m),
                          Some (if ks = [] then SIGNER (Meta au) else Meta au)],
             Signers = map (\<lambda>k. Some (SIGNER (Meta k))) ks\<rparr>"
  by (simp add: NewThawAccountInstruction_def chain_def NewThawAccountInstructionBuilder_def
      SetAccount_def SetMintAccount_def SetAuthorityAccount_def set_index_def
      append_signers_eq numeral_3_eq_3)

end
